theory Spec2Isabelle
  imports Main
begin

section \<open>The packaging script \<^verbatim>\<open>py/setup.py\<close> of thermostat-eem\<close>

text \<open>
  The script imports two functions from setuptools and then makes one call of the
  tool's registration function with seven keyword arguments. Six of them are
  literals; the value of \<^verbatim>\<open>packages\<close> is the result of a call to the tool's
  package discovery. Both functions are not part of the repository, so the model
  takes them as a parameter: a record of two functions over an arbitrary world state
  \<open>'st\<close> and an arbitrary error type \<open>'e\<close> (whatever the tool raises).
\<close>

subsection \<open>Values and keyword arguments\<close>

text \<open>The Python values the script builds: a string, or a list of strings.\<close>

datatype pyval = Str string | StrList "string list"

text \<open>Keyword arguments in the order the call writes them.\<close>

type_synonym kwargs = "(string \<times> pyval) list"

subsection \<open>The imported tool\<close>

text \<open>
  \<^verbatim>\<open>from setuptools import setup, find_packages\<close>. The discovery reads the world
  (the directory the script runs in) and returns package names or raises; the
  registration takes the keyword arguments and changes the world or raises. The
  field \<open>setup_fn\<close> is the imported function \<^verbatim>\<open>setup\<close>, whose own name is a
  keyword of Isabelle.
\<close>

record ('st, 'e) setuptools =
  find_packages :: "'st \<Rightarrow> 'e + string list"
  setup_fn :: "kwargs \<Rightarrow> 'st \<Rightarrow> 'e + 'st"

subsection \<open>The script\<close>

text \<open>
  Lines 7 to 20: the keyword arguments of the call, given the value \<open>pk\<close> that
  \<^verbatim>\<open>find_packages()\<close> returned.
\<close>

definition setup_kwargs :: "string list \<Rightarrow> kwargs" where
  "setup_kwargs pk =
     [(''name'', Str ''thermostat''),
      (''packages'', StrList pk),
      (''version'', Str ''0.1.0''),
      (''description'', Str ''Thermostat Utilities''),
      (''author'', Str ''QUARTIQ GmbH''),
      (''license'', Str ''MIT''),
      (''install_requires'', StrList
        [''stabilizer@git+https://github.com/quartiq/stabilizer@becc1c72#subdirectory=py'',
         ''miniconf-mqtt@git+https://github.com/quartiq/miniconf@miniconf-v0.10.1#subdirectory=py/miniconf-mqtt''])]"

text \<open>
  The call of lines 7 to 20 in world \<open>s\<close>, with the two names bound to the tool
  \<open>t\<close>: Python evaluates the arguments first, so \<^verbatim>\<open>find_packages()\<close> runs before
  the registration; an exception of either call leaves the script at once. The
  script has no statement after the call.
\<close>

definition setup_py :: "('st, 'e) setuptools \<Rightarrow> 'st \<Rightarrow> 'e + 'st" where
  "setup_py t s =
     (case find_packages t s of
        Inl e \<Rightarrow> Inl e
      | Inr pk \<Rightarrow> setup_fn t (setup_kwargs pk) s)"

text \<open>
  The whole file: the import of line 5, then the call. The import looks the module
  up in the world and binds the tool, or raises (the module is missing, or it lacks
  one of the two names); its exception leaves the script before any call is made.
\<close>

definition run_setup_py :: "('st \<Rightarrow> 'e + ('st, 'e) setuptools) \<Rightarrow> 'st \<Rightarrow> 'e + 'st" where
  "run_setup_py import_setuptools s =
     (case import_setuptools s of
        Inl e \<Rightarrow> Inl e
      | Inr t \<Rightarrow> setup_py t s)"

text \<open>
  The error \<open>e\<close> was raised inside one of the two calls of the tool: the import
  bound a tool, and its discovery raised \<open>e\<close>, or its discovery returned and its
  registration raised \<open>e\<close>.
\<close>

definition raised_by_tool_call :: "('st \<Rightarrow> 'e + ('st, 'e) setuptools) \<Rightarrow> 'st \<Rightarrow> 'e \<Rightarrow> bool" where
  "raised_by_tool_call import_setuptools s e =
     (case import_setuptools s of
        Inl _ \<Rightarrow> False
      | Inr t \<Rightarrow>
          (case find_packages t s of
             Inl e' \<Rightarrow> e' = e
           | Inr pk \<Rightarrow> setup_fn t (setup_kwargs pk) s = Inl e))"

subsection \<open>A tool that records what it is given\<close>

text \<open>
  To count registrations the world is made concrete: a directory layout of any
  type \<open>'fs\<close> and the list of keyword-argument sets registered so far. The
  recording tool discovers packages with any function \<open>fp\<close> of the layout and
  registers by appending; neither call fails.
\<close>

record 'fs world =
  layout :: 'fs
  registered :: "kwargs list"

definition recording_tool :: "('fs \<Rightarrow> string list) \<Rightarrow> ('fs world, 'e) setuptools" where
  "recording_tool fp =
     \<lparr> find_packages = (\<lambda>w. Inr (fp (layout w))),
       setup_fn = (\<lambda>kw w. Inr (w\<lparr>registered := registered w @ [kw]\<rparr>)) \<rparr>"

subsection \<open>The package descriptor of the specification\<close>

text \<open>
  The specification's data model: a package descriptor has the six fields name,
  version, description, author, license and dependencies.
\<close>

record package_descriptor =
  name :: string
  version :: string
  description :: string
  author :: string
  license :: string
  dependencies :: "string list"

text \<open>The keywords that carry the descriptor's six fields, in the record's order.\<close>

definition descriptor_keywords :: "string list" where
  "descriptor_keywords =
     [''name'', ''version'', ''description'', ''author'', ''license'', ''install_requires'']"

fun kw_str :: "kwargs \<Rightarrow> string \<Rightarrow> string option" where
  "kw_str kw k = (case map_of kw k of Some (Str v) \<Rightarrow> Some v | _ \<Rightarrow> None)"

fun kw_list :: "kwargs \<Rightarrow> string \<Rightarrow> string list option" where
  "kw_list kw k = (case map_of kw k of Some (StrList v) \<Rightarrow> Some v | _ \<Rightarrow> None)"

text \<open>
  Reading the descriptor out of a set of keyword arguments; \<open>None\<close> when one of
  the six is missing or has the wrong type.
\<close>

definition descriptor_of :: "kwargs \<Rightarrow> package_descriptor option" where
  "descriptor_of kw =
     (case (kw_str kw ''name'', kw_str kw ''version'', kw_str kw ''description'',
            kw_str kw ''author'', kw_str kw ''license'', kw_list kw ''install_requires'') of
        (Some n, Some v, Some d, Some a, Some l, Some r) \<Rightarrow>
          Some \<lparr> name = n, version = v, description = d, author = a, license = l,
                 dependencies = r \<rparr>
      | _ \<Rightarrow> None)"

text \<open>The keywords of a call that are not among the descriptor's six.\<close>

definition other_keywords :: "kwargs \<Rightarrow> string list" where
  "other_keywords kw = filter (\<lambda>k. k \<notin> set descriptor_keywords) (map fst kw)"

subsection \<open>Reading a version string\<close>

text \<open>
  The vocabulary for the version claim: \<open>split_on\<close> is Python's
  \<^verbatim>\<open>str.split(c)\<close>; a numeric identifier of a semantic version is a non-empty
  run of decimal digits with no leading zero (the single digit 0 apart), read in
  base ten; a version core is exactly three of them separated by dots.
\<close>

fun split_on :: "char \<Rightarrow> string \<Rightarrow> string list" where
  "split_on c [] = [[]]"
| "split_on c (x # xs) =
     (if x = c then [] # split_on c xs
      else (case split_on c xs of
              [] \<Rightarrow> [[x]]
            | p # ps \<Rightarrow> (x # p) # ps))"

definition digit_of :: "char \<Rightarrow> nat option" where
  "digit_of ch =
     map_of [(CHR ''0'', 0), (CHR ''1'', 1), (CHR ''2'', 2), (CHR ''3'', 3), (CHR ''4'', 4),
             (CHR ''5'', 5), (CHR ''6'', 6), (CHR ''7'', 7), (CHR ''8'', 8), (CHR ''9'', 9)] ch"

fun decimal_acc :: "nat \<Rightarrow> string \<Rightarrow> nat option" where
  "decimal_acc acc [] = Some acc"
| "decimal_acc acc (ch # cs) =
     (case digit_of ch of
        None \<Rightarrow> None
      | Some d \<Rightarrow> decimal_acc (10 * acc + d) cs)"

definition numeric_identifier :: "string \<Rightarrow> nat option" where
  "numeric_identifier s =
     (if s = [] then None
      else if hd s = CHR ''0'' \<and> tl s \<noteq> [] then None
      else decimal_acc 0 s)"

definition semver_core :: "string \<Rightarrow> (nat \<times> nat \<times> nat) option" where
  "semver_core s =
     (case map numeric_identifier (split_on CHR ''.'' s) of
        [Some major, Some minor, Some patch] \<Rightarrow> Some (major, minor, patch)
      | _ \<Rightarrow> None)"

subsection \<open>Reading a dependency specifier\<close>

text \<open>
  The vocabulary for the dependency claims: a direct reference of the form
  \<^verbatim>\<open>name@vcs+url@revision#subdirectory=path\<close>. The name ends at the first
  \<^verbatim>\<open>@\<close>, the fragment starts at the first \<^verbatim>\<open>#\<close>, the version-control
  system ends at the first \<^verbatim>\<open>+\<close> and the revision starts after the last
  \<^verbatim>\<open>@\<close> of what remains.
\<close>

fun split_first :: "char \<Rightarrow> string \<Rightarrow> (string \<times> string) option" where
  "split_first c [] = None"
| "split_first c (x # xs) =
     (if x = c then Some ([], xs)
      else (case split_first c xs of
              None \<Rightarrow> None
            | Some (a, b) \<Rightarrow> Some (x # a, b)))"

definition split_last :: "char \<Rightarrow> string \<Rightarrow> (string \<times> string) option" where
  "split_last c s =
     (case split_first c (rev s) of
        None \<Rightarrow> None
      | Some (b, a) \<Rightarrow> Some (rev a, rev b))"

fun strip_prefix :: "string \<Rightarrow> string \<Rightarrow> string option" where
  "strip_prefix [] s = Some s"
| "strip_prefix (p # ps) [] = None"
| "strip_prefix (p # ps) (x # xs) = (if p = x then strip_prefix ps xs else None)"

record direct_reference =
  package :: string
  vcs :: string
  location :: string
  revision :: string
  subdirectory :: string

definition parse_direct_reference :: "string \<Rightarrow> direct_reference option" where
  "parse_direct_reference s =
     (case split_first CHR ''@'' s of
        None \<Rightarrow> None
      | Some (nm, url) \<Rightarrow>
     (case split_first CHR ''#'' url of
        None \<Rightarrow> None
      | Some (src, frag) \<Rightarrow>
     (case strip_prefix ''subdirectory='' frag of
        None \<Rightarrow> None
      | Some sub \<Rightarrow>
     (case split_first CHR ''+'' src of
        None \<Rightarrow> None
      | Some (v, rest) \<Rightarrow>
     (case split_last CHR ''@'' rest of
        None \<Rightarrow> None
      | Some (loc, rev') \<Rightarrow>
          Some \<lparr> package = nm, vcs = v, location = loc, revision = rev',
                 subdirectory = sub \<rparr>)))))"

subsection \<open>Tools and imports that raise\<close>

text \<open>
  Two concrete tools over the one-point world, with strings as errors: one whose
  registration raises and one whose discovery raises. Two imports: one that finds no
  module, and one that binds a given tool.
\<close>

definition failing_registration :: "(unit, string) setuptools" where
  "failing_registration =
     \<lparr> find_packages = (\<lambda>s. Inr [''thermostat'']),
       setup_fn = (\<lambda>kw s. Inl ''unreachable dependency source'') \<rparr>"

definition failing_discovery :: "(unit, string) setuptools" where
  "failing_discovery =
     \<lparr> find_packages = (\<lambda>s. Inl ''unreadable directory''),
       setup_fn = (\<lambda>kw s. Inr s) \<rparr>"

definition missing_setuptools :: "unit \<Rightarrow> string + (unit, string) setuptools" where
  "missing_setuptools s = Inl ''No module named setuptools''"

definition installed :: "('st, 'e) setuptools \<Rightarrow> 'st \<Rightarrow> 'e + ('st, 'e) setuptools" where
  "installed t s = Inr t"

subsection \<open>The discovery of setuptools\<close>













section \<open>Properties\<close>

subsection \<open>Evaluating the pieces\<close>

lemma setup_py_recording:
  "setup_py (recording_tool fp) w =
     Inr (w\<lparr>registered := registered w @ [setup_kwargs (fp (layout w))]\<rparr>)"
  by (simp add: setup_py_def recording_tool_def)

lemma descriptor_of_setup_kwargs:
  "descriptor_of (setup_kwargs pk) =
     Some \<lparr> name = ''thermostat'', version = ''0.1.0'',
            description = ''Thermostat Utilities'', author = ''QUARTIQ GmbH'',
            license = ''MIT'',
            dependencies =
              [''stabilizer@git+https://github.com/quartiq/stabilizer@becc1c72#subdirectory=py'',
               ''miniconf-mqtt@git+https://github.com/quartiq/miniconf@miniconf-v0.10.1#subdirectory=py/miniconf-mqtt''] \<rparr>"
  by (simp add: descriptor_of_def setup_kwargs_def)

lemma keywords_setup_kwargs:
  "map fst (setup_kwargs pk) =
     [''name'', ''packages'', ''version'', ''description'', ''author'', ''license'',
      ''install_requires'']"
  by (simp add: setup_kwargs_def)

lemma other_keywords_setup_kwargs: "other_keywords (setup_kwargs pk) = [''packages'']"
  by (simp add: other_keywords_def keywords_setup_kwargs descriptor_keywords_def)

lemma install_requires_setup_kwargs:
  "kw_list (setup_kwargs pk) ''install_requires'' =
     Some [''stabilizer@git+https://github.com/quartiq/stabilizer@becc1c72#subdirectory=py'',
           ''miniconf-mqtt@git+https://github.com/quartiq/miniconf@miniconf-v0.10.1#subdirectory=py/miniconf-mqtt'']"
  by (simp add: setup_kwargs_def)

lemma parse_stabilizer:
  "parse_direct_reference
     ''stabilizer@git+https://github.com/quartiq/stabilizer@becc1c72#subdirectory=py'' =
   Some \<lparr> package = ''stabilizer'', vcs = ''git'',
          location = ''https://github.com/quartiq/stabilizer'', revision = ''becc1c72'',
          subdirectory = ''py'' \<rparr>"
  by (simp add: parse_direct_reference_def split_last_def)

lemma parse_miniconf:
  "parse_direct_reference
     ''miniconf-mqtt@git+https://github.com/quartiq/miniconf@miniconf-v0.10.1#subdirectory=py/miniconf-mqtt'' =
   Some \<lparr> package = ''miniconf-mqtt'', vcs = ''git'',
          location = ''https://github.com/quartiq/miniconf'', revision = ''miniconf-v0.10.1'',
          subdirectory = ''py/miniconf-mqtt'' \<rparr>"
  by (simp add: parse_direct_reference_def split_last_def)

subsection \<open>What the discovery finds\<close>










subsection \<open>The registration and its descriptor\<close>

text \<open>
  Claim C1. Evaluating the script registers exactly once: with the recording tool,
  for every discovery function and every world, the evaluation succeeds and the list
  of registrations grows by the one set of keyword arguments of the call. The
  descriptor read from it has the six fields name, version, description, author,
  license and dependencies, with the values thermostat, 0.1.0, Thermostat Utilities,
  QUARTIQ GmbH and MIT and the two dependency specifiers. No keyword is given twice,
  and the only keyword of the call outside the six is \<^verbatim>\<open>packages\<close>, the
  computed list of sub-packages of claim C4, which is the tool's discovery and not a
  metadata field of the descriptor.
\<close>

theorem one_registration_of_descriptor:
  "setup_py (recording_tool fp) w =
     Inr (w\<lparr>registered := registered w @ [setup_kwargs (fp (layout w))]\<rparr>) \<and>
   descriptor_of (setup_kwargs (fp (layout w))) =
     Some \<lparr> name = ''thermostat'', version = ''0.1.0'',
            description = ''Thermostat Utilities'', author = ''QUARTIQ GmbH'',
            license = ''MIT'',
            dependencies =
              [''stabilizer@git+https://github.com/quartiq/stabilizer@becc1c72#subdirectory=py'',
               ''miniconf-mqtt@git+https://github.com/quartiq/miniconf@miniconf-v0.10.1#subdirectory=py/miniconf-mqtt''] \<rparr> \<and>
   other_keywords (setup_kwargs (fp (layout w))) = [''packages''] \<and>
   distinct (map fst (setup_kwargs (fp (layout w))))"
  by (simp add: setup_py_recording descriptor_of_setup_kwargs other_keywords_setup_kwargs
      keywords_setup_kwargs)

subsection \<open>The dependencies\<close>

text \<open>
  Claim C3. The dependencies are an ordered sequence of exactly two specifiers. Each
  is a direct reference: the first names the package stabilizer, at revision
  becc1c72 of a git repository, in the subdirectory py; the second names the package
  miniconf-mqtt, at the tagged revision miniconf-v0.10.1 of a git repository, in the
  subdirectory py/miniconf-mqtt.
\<close>

theorem dependencies_two_direct_references:
  "map_option (map parse_direct_reference) (kw_list (setup_kwargs pk) ''install_requires'') =
     Some [Some \<lparr> package = ''stabilizer'', vcs = ''git'',
                  location = ''https://github.com/quartiq/stabilizer'',
                  revision = ''becc1c72'', subdirectory = ''py'' \<rparr>,
           Some \<lparr> package = ''miniconf-mqtt'', vcs = ''git'',
                  location = ''https://github.com/quartiq/miniconf'',
                  revision = ''miniconf-v0.10.1'', subdirectory = ''py/miniconf-mqtt'' \<rparr>]"
  by (simp only: install_requires_setup_kwargs option.map list.map parse_stabilizer
      parse_miniconf)

subsection \<open>The discovered packages\<close>




subsection \<open>Determinism\<close>

text \<open>
  Claim C5. The descriptor is a constant: any two evaluations, whatever the
  discovery returned, give the same descriptor metadata; and running the script
  twice in a row succeeds both times and registers the same keyword arguments twice,
  leaving the layout as it was.
\<close>

theorem evaluation_deterministic:
  "descriptor_of (setup_kwargs pk) = descriptor_of (setup_kwargs pk') \<and>
   descriptor_of (setup_kwargs pk) \<noteq> None \<and>
   (case setup_py (recording_tool fp) w of
      Inl e \<Rightarrow> False
    | Inr w1 \<Rightarrow>
        (case setup_py (recording_tool fp) w1 of
           Inl e \<Rightarrow> False
         | Inr w2 \<Rightarrow>
             layout w2 = layout w \<and>
             registered w2 =
               registered w @ [setup_kwargs (fp (layout w)), setup_kwargs (fp (layout w))]))"
  by (simp add: setup_py_recording descriptor_of_setup_kwargs)

subsection \<open>Errors\<close>

text \<open>
  Claim C6, as stated, fails: an evaluation can raise outside the two calls of the
  tool. Where the import of line 5 finds no module, the script ends in the import's
  error, and no error was raised inside a call of the tool: none was bound.
\<close>

theorem import_error_before_any_call:
  "run_setup_py missing_setuptools () = Inl ''No module named setuptools'' \<and>
   \<not> raised_by_tool_call missing_setuptools () ''No module named setuptools''"
  by (simp add: run_setup_py_def raised_by_tool_call_def missing_setuptools_def)

text \<open>
  Claim C6, amended. The script has no error handling and no failure of its own.
  For every import, every world and every error type: an error of the import, of
  the discovery or of the registration ends the evaluation in that same error; when
  the import and the discovery return, the evaluation returns what the registration
  returned; and an evaluation that ends in an error got it from the import or from
  inside one of the two calls of the tool.
\<close>

theorem errors_propagate_unchanged:
  "(import_setuptools s = Inl e \<longrightarrow> run_setup_py import_setuptools s = Inl e) \<and>
   (import_setuptools s = Inr t \<longrightarrow> find_packages t s = Inl e \<longrightarrow>
      run_setup_py import_setuptools s = Inl e) \<and>
   (import_setuptools s = Inr t \<longrightarrow> find_packages t s = Inr pk \<longrightarrow>
      run_setup_py import_setuptools s = setup_fn t (setup_kwargs pk) s) \<and>
   (run_setup_py import_setuptools s = Inl e \<longrightarrow>
      import_setuptools s = Inl e \<or> raised_by_tool_call import_setuptools s e)"
  by (auto simp: run_setup_py_def setup_py_def raised_by_tool_call_def split: sum.splits)

theorem errors_propagate_unchanged_witness:
  "run_setup_py missing_setuptools () = Inl ''No module named setuptools'' \<and>
   run_setup_py (installed failing_discovery) () = Inl ''unreadable directory'' \<and>
   run_setup_py (installed failing_registration) () = Inl ''unreachable dependency source'' \<and>
   raised_by_tool_call (installed failing_registration) () ''unreachable dependency source'' \<and>
   run_setup_py (installed (recording_tool (\<lambda>fs. fs) :: (string list world, string) setuptools))
     \<lparr> layout = [''thermostat''], registered = [] \<rparr> =
     Inr \<lparr> layout = [''thermostat''], registered = [setup_kwargs [''thermostat'']] \<rparr>"
proof -
  let ?e1 = "''No module named setuptools''"
  let ?e2 = "''unreadable directory''"
  let ?e3 = "''unreachable dependency source''"
  let ?t = "recording_tool (\<lambda>fs. fs) :: (string list world, string) setuptools"
  let ?w = "\<lparr> layout = [''thermostat''], registered = [] \<rparr>"
  have i1: "missing_setuptools () = Inl ?e1"
    by (simp add: missing_setuptools_def)
  have i2: "installed failing_discovery () = Inr failing_discovery"
    by (simp add: installed_def)
  have f2: "find_packages failing_discovery () = Inl ?e2"
    by (simp add: failing_discovery_def)
  have i3: "installed failing_registration () = Inr failing_registration"
    by (simp add: installed_def)
  have f3: "find_packages failing_registration () = Inr [''thermostat'']"
    by (simp add: failing_registration_def)
  have g3: "setup_fn failing_registration (setup_kwargs [''thermostat'']) () = Inl ?e3"
    by (simp add: failing_registration_def)
  have n3: "installed failing_registration () \<noteq> Inl ?e3"
    by (simp add: installed_def)
  have i4: "installed ?t ?w = Inr ?t"
    by (simp add: installed_def)
  have f4: "find_packages ?t ?w = Inr [''thermostat'']"
    by (simp add: recording_tool_def)
  have g4: "setup_fn ?t (setup_kwargs [''thermostat'']) ?w =
      Inr \<lparr> layout = [''thermostat''], registered = [setup_kwargs [''thermostat'']] \<rparr>"
    by (simp add: recording_tool_def)
  from errors_propagate_unchanged [of missing_setuptools "()" ?e1] i1
  have r1: "run_setup_py missing_setuptools () = Inl ?e1"
    by blast
  from errors_propagate_unchanged [of "installed failing_discovery" "()" ?e2 failing_discovery]
    i2 f2
  have r2: "run_setup_py (installed failing_discovery) () = Inl ?e2"
    by blast
  from errors_propagate_unchanged
    [of "installed failing_registration" "()" ?e3 failing_registration "[''thermostat'']"]
    i3 f3 g3 n3
  have r3: "run_setup_py (installed failing_registration) () = Inl ?e3"
    and c3: "raised_by_tool_call (installed failing_registration) () ?e3"
    by simp_all
  from errors_propagate_unchanged [of "installed ?t" ?w _ ?t "[''thermostat'']"] i4 f4 g4
  have r4: "run_setup_py (installed ?t) ?w =
      Inr \<lparr> layout = [''thermostat''], registered = [setup_kwargs [''thermostat'']] \<rparr>"
    by simp
  from r1 r2 r3 c3 r4 show ?thesis by blast
qed

subsection \<open>Frame\<close>

text \<open>
  Claim C7. The descriptor is constructed once per evaluation and not changed
  afterwards. With the recording tool, the evaluation leaves the layout and every
  earlier registration as they were and adds exactly one entry, which is the set of
  keyword arguments as constructed. For every tool, the world after a successful
  evaluation is the world that the one registration call returned: the script does
  nothing after it.
\<close>

theorem descriptor_constructed_once:
  "(case setup_py (recording_tool fp) w of
      Inl e \<Rightarrow> False
    | Inr w' \<Rightarrow>
        layout w' = layout w \<and>
        length (registered w') = Suc (length (registered w)) \<and>
        take (length (registered w)) (registered w') = registered w \<and>
        last (registered w') = setup_kwargs (fp (layout w))) \<and>
   (setup_py t s = Inr s' \<longrightarrow>
      (\<exists>pk. find_packages t s = Inr pk \<and> setup_fn t (setup_kwargs pk) s = Inr s'))"
proof (rule conjI)
  show "case setup_py (recording_tool fp) w of
      Inl e \<Rightarrow> False
    | Inr w' \<Rightarrow>
        layout w' = layout w \<and>
        length (registered w') = Suc (length (registered w)) \<and>
        take (length (registered w)) (registered w') = registered w \<and>
        last (registered w') = setup_kwargs (fp (layout w))"
    by (simp add: setup_py_recording)
next
  show "setup_py t s = Inr s' \<longrightarrow>
      (\<exists>pk. find_packages t s = Inr pk \<and> setup_fn t (setup_kwargs pk) s = Inr s')"
    by (auto simp: setup_py_def split: sum.splits)
qed

theorem descriptor_constructed_once_witness:
  "setup_py (recording_tool (\<lambda>fs. fs) :: (string list world, string) setuptools)
     \<lparr> layout = [''thermostat''], registered = [] \<rparr> =
     Inr \<lparr> layout = [''thermostat''], registered = [setup_kwargs [''thermostat'']] \<rparr> \<and>
   (\<exists>pk. find_packages (recording_tool (\<lambda>fs. fs) :: (string list world, string) setuptools)
            \<lparr> layout = [''thermostat''], registered = [] \<rparr> = Inr pk \<and>
         setup_fn (recording_tool (\<lambda>fs. fs) :: (string list world, string) setuptools)
            (setup_kwargs pk) \<lparr> layout = [''thermostat''], registered = [] \<rparr> =
           Inr \<lparr> layout = [''thermostat''], registered = [setup_kwargs [''thermostat'']] \<rparr>)"
proof -
  let ?t = "recording_tool (\<lambda>fs. fs) :: (string list world, string) setuptools"
  let ?w = "\<lparr> layout = [''thermostat''], registered = [] \<rparr>"
  let ?w' = "\<lparr> layout = [''thermostat''], registered = [setup_kwargs [''thermostat'']] \<rparr>"
  have a: "setup_py ?t ?w = Inr ?w'"
    by (simp add: setup_py_def recording_tool_def)
  from descriptor_constructed_once [of _ _ ?t ?w ?w'] a
  have "\<exists>pk. find_packages ?t ?w = Inr pk \<and> setup_fn ?t (setup_kwargs pk) ?w = Inr ?w'"
    by blast
  with a show ?thesis by blast
qed

subsection \<open>The version\<close>

text \<open>
  Claim C8. The version is a semantic version string: 0.1.0 is three dot-separated
  non-negative integers, major 0, minor 1 and patch 0.
\<close>

theorem version_is_semantic:
  "kw_str (setup_kwargs pk) ''version'' = Some ''0.1.0'' \<and>
   Option.bind (kw_str (setup_kwargs pk) ''version'') semver_core = Some (0, 1, 0)"
  by (simp add: setup_kwargs_def semver_core_def numeric_identifier_def digit_of_def)

subsection \<open>No constraint on the environment\<close>

text \<open>
  Claim C10. The call declares no \<^verbatim>\<open>python_requires\<close>, no
  \<^verbatim>\<open>extras_require\<close>, no \<^verbatim>\<open>classifiers\<close> and no \<^verbatim>\<open>entry_points\<close>, whatever
  the discovery returned: its keywords are the seven listed and no other, so the
  descriptor restricts no interpreter version.
\<close>

theorem no_environment_constraint:
  "map (map_of (setup_kwargs pk))
     [''python_requires'', ''extras_require'', ''classifiers'', ''entry_points''] =
     [None, None, None, None] \<and>
   map fst (setup_kwargs pk) =
     [''name'', ''packages'', ''version'', ''description'', ''author'', ''license'',
      ''install_requires'']"
  by (simp add: setup_kwargs_def)

end
